theory Spec2Isabelle
  imports Complex_Main "HOL-Library.Code_Target_Numeral"
begin

section \<open>Values of the host language\<close>

text \<open>
  A JavaScript string is kept as an Isabelle \<open>string\<close> holding the bytes of its UTF-8
  encoding, the way the literals stand in \<open>index.js\<close>. Equality of two strings
  (\<open>===\<close>, \<open>includes\<close>) is equality of these byte lists.

  A JavaScript number is one of the two infinities, not-a-number, or a finite value;
  \<open>js_lt\<close> is the operator \<open><\<close> on numbers, which is false as soon as one side
  is \<open>NaN\<close>.
\<close>

datatype jsnum = NaN | NegInfinity | Fin rat | Infinity

fun js_lt :: "jsnum \<Rightarrow> jsnum \<Rightarrow> bool" where
  "js_lt NaN _ = False"
| "js_lt _ NaN = False"
| "js_lt (Fin a) (Fin b) = (a < b)"
| "js_lt (Fin _) Infinity = True"
| "js_lt (Fin _) NegInfinity = False"
| "js_lt NegInfinity NegInfinity = False"
| "js_lt NegInfinity _ = True"
| "js_lt Infinity _ = False"

text \<open>\<open>Array.prototype.find\<close>: the first element satisfying the predicate, or \<open>undefined\<close>.\<close>

fun js_find :: "('a \<Rightarrow> bool) \<Rightarrow> 'a list \<Rightarrow> 'a option" where
  "js_find p [] = None"
| "js_find p (x # xs) = (if p x then Some x else js_find p xs)"

section \<open>The threshold table\<close>

record threshold =
  roleName :: string
  max_th :: jsnum

text \<open>The four pictographs of the table, as the UTF-8 bytes of the source file.\<close>

definition dolphin :: string where
  "dolphin = [CHR 0xF0, CHR 0x9F, CHR 0x90, CHR 0xAC]"

definition shark :: string where
  "shark = [CHR 0xF0, CHR 0x9F, CHR 0xA6, CHR 0x88]"

definition whale :: string where
  "whale = [CHR 0xF0, CHR 0x9F, CHR 0x90, CHR 0x8B]"

definition humpback :: string where
  "humpback = [CHR 0xF0, CHR 0x9F, CHR 0x90, CHR 0xB3]"

definition roleThresholds :: "threshold list" where
  "roleThresholds =
    [ \<lparr>roleName = ''zklHolder'', max_th = Fin 5000\<rparr>,
      \<lparr>roleName = ''zkLDolphin '' @ dolphin, max_th = Fin 10000\<rparr>,
      \<lparr>roleName = ''zklShark '' @ shark, max_th = Fin 50000\<rparr>,
      \<lparr>roleName = ''zklWhale '' @ whale, max_th = Fin 100000\<rparr>,
      \<lparr>roleName = ''zklHumpback '' @ humpback, max_th = Infinity\<rparr> ]"

definition roleNames :: "string list" where
  "roleNames = map roleName roleThresholds"

datatype err =
    TypeError
  | SyntaxError
  | RangeError
  | TransportError string
  | NodeError string
  | ApiError string
  | RpcRequestError err
  | TokenInfoError err

text \<open>
  Line 180 of \<open>index.js\<close>: \<open>roleThresholds.find(th => balance < th.max).roleName\<close>.
  Reading \<open>.roleName\<close> of \<open>undefined\<close> throws a \<open>TypeError\<close>.
\<close>

definition resolveRoleName :: "threshold list \<Rightarrow> jsnum \<Rightarrow> err + string" where
  "resolveRoleName ladder balance =
     (case js_find (\<lambda>th. js_lt balance (max_th th)) ladder of
        None \<Rightarrow> Inl TypeError
      | Some th \<Rightarrow> Inr (roleName th))"

section \<open>Decoding of raw results\<close>

text \<open>
  What a JSON reply can hold, as far as this program looks at it: nothing
  (\<open>undefined\<close>), \<open>null\<close>, a boolean, a string, or an object with named fields.
\<close>

datatype jsval =
    JUndefined
  | JNull
  | JBool bool
  | JStr string
  | JObj "(string \<times> jsval) list"

definition hexDigit :: "char \<Rightarrow> nat option" where
  "hexDigit c =
     (let n = (of_char c :: nat) in
      if 48 \<le> n \<and> n \<le> 57 then Some (n - 48)
      else if 97 \<le> n \<and> n \<le> 102 then Some (n - 87)
      else if 65 \<le> n \<and> n \<le> 70 then Some (n - 55)
      else None)"

text \<open>
  \<open>Buffer.from(hex, 'hex')\<close>: two digits make one byte; the buffer ends at the first
  pair that is not two hexadecimal digits, and a single trailing digit is dropped.
\<close>

fun Buffer_from_hex :: "string \<Rightarrow> string" where
  "Buffer_from_hex (a # b # rest) =
     (case hexDigit a of
        None \<Rightarrow> []
      | Some x \<Rightarrow>
          (case hexDigit b of
             None \<Rightarrow> []
           | Some y \<Rightarrow> char_of (16 * x + y) # Buffer_from_hex rest))"
| "Buffer_from_hex _ = []"

text \<open>
  \<open>buf.toString('utf8')\<close>. A well-formed sequence is kept; every maximal ill-formed
  part is replaced by U+FFFD, whose UTF-8 bytes are \<open>EF BF BD\<close>. A sequence in progress
  is remembered as the number of continuation bytes still needed, the range allowed
  for the next byte, and the bytes read so far.
\<close>

definition replacement :: string where
  "replacement = [CHR 0xEF, CHR 0xBF, CHR 0xBD]"

type_synonym pending = "nat \<times> nat \<times> nat \<times> string"

definition utf8_lead :: "char \<Rightarrow> string \<times> pending option" where
  "utf8_lead c =
     (let b = (of_char c :: nat) in
      if b < 0x80 then ([c], None)
      else if 0xC2 \<le> b \<and> b \<le> 0xDF then ([], Some (1, 0x80, 0xBF, [c]))
      else if b = 0xE0 then ([], Some (2, 0xA0, 0xBF, [c]))
      else if b = 0xED then ([], Some (2, 0x80, 0x9F, [c]))
      else if 0xE1 \<le> b \<and> b \<le> 0xEF then ([], Some (2, 0x80, 0xBF, [c]))
      else if b = 0xF0 then ([], Some (3, 0x90, 0xBF, [c]))
      else if b = 0xF4 then ([], Some (3, 0x80, 0x8F, [c]))
      else if 0xF1 \<le> b \<and> b \<le> 0xF3 then ([], Some (3, 0x80, 0xBF, [c]))
      else (replacement, None))"

fun utf8_toString :: "pending option \<Rightarrow> string \<Rightarrow> string" where
  "utf8_toString None [] = []"
| "utf8_toString (Some _) [] = replacement"
| "utf8_toString None (c # cs) =
     (case utf8_lead c of (out, st) \<Rightarrow> out @ utf8_toString st cs)"
| "utf8_toString (Some (needed, lo, hi, seen)) (c # cs) =
     (if lo \<le> (of_char c :: nat) \<and> (of_char c :: nat) \<le> hi then
        (if needed = 1 then seen @ [c] @ utf8_toString None cs
         else utf8_toString (Some (needed - 1, 0x80, 0xBF, seen @ [c])) cs)
      else
        replacement @ (case utf8_lead c of (out, st) \<Rightarrow> out @ utf8_toString st cs))"

text \<open>The two \<open>replace\<close> calls of \<open>decodeHexToString\<close>: \<open>/\0/g\<close>, then \<open>/[\x00-\x1F\x7F]/g\<close>.\<close>

definition replace_nul :: "string \<Rightarrow> string" where
  "replace_nul s = filter (\<lambda>c. (of_char c :: nat) \<noteq> 0) s"

definition controlChar :: "char \<Rightarrow> bool" where
  "controlChar c = ((of_char c :: nat) \<le> 0x1F \<or> (of_char c :: nat) = 0x7F)"

definition replace_control :: "string \<Rightarrow> string" where
  "replace_control s = filter (\<lambda>c. \<not> controlChar c) s"

text \<open>
  \<open>decodeHexToString\<close>, lines 71 to 75. Calling \<open>startsWith\<close> on a value that is not a
  string throws a \<open>TypeError\<close>.
\<close>

definition decodeHexToString :: "jsval \<Rightarrow> err + string" where
  "decodeHexToString hexValue =
     (case hexValue of
        JStr s \<Rightarrow>
          (let hex = (if take 2 s = ''0x'' then drop 2 s else s);
               buf = Buffer_from_hex hex
           in Inr (replace_control (replace_nul (utf8_toString None buf))))
      | _ \<Rightarrow> Inl TypeError)"

section \<open>The chat platform\<close>

text \<open>
  A role has an identifier and a name (\<open>r.name\<close>); several roles of a guild may share a
  name. A member (\<open>m.id\<close>, \<open>m.user.username\<close>, \<open>m.user.discriminator\<close>) holds roles by
  their identifiers. The guild keeps its roles and members in the order of
  \<open>guild.roles.cache\<close> and of the collection that \<open>guild.members.fetch()\<close> returns.
  Each request to the platform may be rejected; \<open>rejects\<close> says which ones are, and
  \<open>requests\<close> records the requests made, oldest first.
\<close>

record role =
  role_id :: nat
  role_name :: string

record member =
  member_id :: string
  username :: string
  discriminator :: string
  role_ids :: "nat list"

datatype api_call =
    FetchMember string
  | FetchMembers
  | RemoveRole string nat
  | CreateRole string
  | AddRole string nat

record guild =
  guild_roles :: "role list"
  guild_members :: "member list"
  rejects :: "api_call \<Rightarrow> bool"
  requests :: "api_call list"

definition request :: "guild \<Rightarrow> api_call \<Rightarrow> guild" where
  "request g c = g\<lparr>requests := requests g @ [c]\<rparr>"

text \<open>\<open>guild.members.fetch(id)\<close>: the member, or a rejection when there is none.\<close>

definition members_fetch :: "guild \<Rightarrow> string \<Rightarrow> (err + member) \<times> guild" where
  "members_fetch g uid =
     (let g' = request g (FetchMember uid) in
      if rejects g (FetchMember uid) then (Inl (ApiError ''rejected''), g')
      else (case js_find (\<lambda>m. member_id m = uid) (guild_members g) of
              None \<Rightarrow> (Inl (ApiError ''Unknown Member''), g')
            | Some m \<Rightarrow> (Inr m, g')))"

text \<open>\<open>guild.members.fetch()\<close>: the whole membership listing.\<close>

definition members_fetch_all :: "guild \<Rightarrow> (err + member list) \<times> guild" where
  "members_fetch_all g =
     (let g' = request g FetchMembers in
      if rejects g FetchMembers then (Inl (ApiError ''rejected''), g')
      else (Inr (guild_members g), g'))"

text \<open>\<open>member.roles.cache\<close>: the roles of the guild whose identifier the member holds.\<close>

definition roles_cache :: "guild \<Rightarrow> member \<Rightarrow> role list" where
  "roles_cache g m = filter (\<lambda>r. role_id r \<in> set (role_ids m)) (guild_roles g)"

definition is_member :: "guild \<Rightarrow> string \<Rightarrow> bool" where
  "is_member g uid = (uid \<in> set (map member_id (guild_members g)))"

definition update_member :: "guild \<Rightarrow> string \<Rightarrow> (nat list \<Rightarrow> nat list) \<Rightarrow> guild" where
  "update_member g uid f =
     g\<lparr>guild_members :=
         map (\<lambda>m. if member_id m = uid then m\<lparr>role_ids := f (role_ids m)\<rparr> else m)
           (guild_members g)\<rparr>"

text \<open>\<open>member.roles.remove(role)\<close> and \<open>member.roles.add(role)\<close>.\<close>

definition roles_remove :: "guild \<Rightarrow> string \<Rightarrow> role \<Rightarrow> (err + unit) \<times> guild" where
  "roles_remove g uid r =
     (let g' = request g (RemoveRole uid (role_id r)) in
      if rejects g (RemoveRole uid (role_id r)) then (Inl (ApiError ''rejected''), g')
      else if \<not> is_member g uid then (Inl (ApiError ''Unknown Member''), g')
      else (Inr (), update_member g' uid (filter (\<lambda>i. i \<noteq> role_id r))))"

definition roles_add :: "guild \<Rightarrow> string \<Rightarrow> role \<Rightarrow> (err + unit) \<times> guild" where
  "roles_add g uid r =
     (let g' = request g (AddRole uid (role_id r)) in
      if rejects g (AddRole uid (role_id r)) then (Inl (ApiError ''rejected''), g')
      else if \<not> is_member g uid then (Inl (ApiError ''Unknown Member''), g')
      else (Inr (),
            update_member g' uid
              (\<lambda>ids. if role_id r \<in> set ids then ids else ids @ [role_id r])))"

text \<open>
  \<open>guild.roles.create({name, ...})\<close>: the platform gives the new role an identifier
  that no role of the guild has.
\<close>

definition fresh_role_id :: "guild \<Rightarrow> nat" where
  "fresh_role_id g = Suc (foldr max (map role_id (guild_roles g)) 0)"

definition roles_create :: "guild \<Rightarrow> string \<Rightarrow> (err + role) \<times> guild" where
  "roles_create g nm =
     (let g' = request g (CreateRole nm) in
      if rejects g (CreateRole nm) then (Inl (ApiError ''rejected''), g')
      else (let r = \<lparr>role_id = fresh_role_id g, role_name = nm\<rparr>
            in (Inr r, g'\<lparr>guild_roles := guild_roles g' @ [r]\<rparr>)))"

section \<open>Resolving a user from free-form input\<close>

definition isDigit :: "char \<Rightarrow> bool" where
  "isDigit c = (48 \<le> (of_char c :: nat) \<and> (of_char c :: nat) \<le> 57)"

text \<open>
  \<open>input.match(/^<@!?(\d+)>$/)\<close>: the digits captured, or nothing. The greedy \<open>!?\<close> and
  \<open>\d+\<close> cannot match in a second way, since neither \<open>!\<close> nor \<open>>\<close> is a digit.
\<close>

definition mentionMatch :: "string \<Rightarrow> string option" where
  "mentionMatch input =
     (if take 2 input = ''<@'' then
        (let r = drop 2 input;
             r' = (if take 1 r = ''!'' then drop 1 r else r);
             ds = takeWhile isDigit r'
         in if ds \<noteq> [] \<and> dropWhile isDigit r' = ''>'' then Some ds else None)
      else None)"

text \<open>\<open>/^\d+$/.test(input)\<close>.\<close>

definition allDigits :: "string \<Rightarrow> bool" where
  "allDigits input = (input \<noteq> [] \<and> list_all isDigit input)"

text \<open>\<open>input.split('#')\<close>: never empty; the empty string gives one empty piece.\<close>

fun split_on :: "char \<Rightarrow> string \<Rightarrow> string list" where
  "split_on sep [] = [[]]"
| "split_on sep (c # cs) =
     (if c = sep then [] # split_on sep cs
      else (case split_on sep cs of
              [] \<Rightarrow> [[c]]
            | p # ps \<Rightarrow> (c # p) # ps))"

text \<open>
  \<open>toLowerCase\<close> on the letters A to Z; the other bytes, among them those of
  characters outside ASCII, stay as they are.
\<close>

definition toLowerCase :: "string \<Rightarrow> string" where
  "toLowerCase s =
     map (\<lambda>c. if 65 \<le> (of_char c :: nat) \<and> (of_char c :: nat) \<le> 90
               then char_of ((of_char c :: nat) + 32) else c) s"

text \<open>
  \<open>resolveUserId\<close>, lines 105 to 139. The result is the user identifier or \<open>null\<close>
  (\<open>None\<close>); a rejected listing request is not caught and leaves as an error. The
  guild is returned with the requests made.
\<close>

definition resolveUserId :: "guild \<Rightarrow> string \<Rightarrow> (err + string option) \<times> guild" where
  "resolveUserId g input =
     (case mentionMatch input of
        Some uid \<Rightarrow> (Inr (Some uid), g)
      | None \<Rightarrow>
          if allDigits input then
            (case members_fetch g input of
               (Inr _, g') \<Rightarrow> (Inr (Some input), g')
             | (Inl _, g') \<Rightarrow> (Inr None, g'))
          else
            (let parts = split_on CHR ''#'' input;
                 uname = hd parts;
                 discr = (case tl parts of [] \<Rightarrow> None | d # _ \<Rightarrow> Some d)
             in if uname = [] then (Inr None, g)
                else
                  (case members_fetch_all g of
                     (Inl e, g') \<Rightarrow> (Inl e, g')
                   | (Inr members, g') \<Rightarrow>
                       if discr = None \<or> discr = Some [] then
                         (case js_find (\<lambda>m. toLowerCase (username m) = toLowerCase uname)
                                 members of
                            Some m \<Rightarrow> (Inr (Some (member_id m)), g')
                          | None \<Rightarrow> (Inr None, g'))
                       else
                         (case js_find
                                 (\<lambda>m. toLowerCase (username m) = toLowerCase uname
                                      \<and> Some (discriminator m) = discr)
                                 members of
                            Some m \<Rightarrow> (Inr (Some (member_id m)), g')
                          | None \<Rightarrow> (Inr None, g')))))"

section \<open>The node\<close>

text \<open>
  Reading a property of a value: of \<open>undefined\<close> and \<open>null\<close> it throws a \<open>TypeError\<close>;
  an object gives the field (the last one of that name, as \<open>JSON.parse\<close> keeps it) or
  \<open>undefined\<close>; a boolean or a string has none of the properties read here.
\<close>

definition get_prop :: "jsval \<Rightarrow> string \<Rightarrow> err + jsval" where
  "get_prop v k =
     (case v of
        JUndefined \<Rightarrow> Inl TypeError
      | JNull \<Rightarrow> Inl TypeError
      | JObj kvs \<Rightarrow> Inr (case map_of (rev kvs) k of None \<Rightarrow> JUndefined | Some x \<Rightarrow> x)
      | _ \<Rightarrow> Inr JUndefined)"

definition truthy :: "jsval \<Rightarrow> bool" where
  "truthy v =
     (case v of
        JUndefined \<Rightarrow> False
      | JNull \<Rightarrow> False
      | JBool b \<Rightarrow> b
      | JStr s \<Rightarrow> s \<noteq> []
      | JObj _ \<Rightarrow> True)"

text \<open>The message of \<open>new Error(v)\<close>: empty for \<open>undefined\<close>, else \<open>v\<close> as a string.\<close>

definition error_message :: "jsval \<Rightarrow> string" where
  "error_message v =
     (case v of
        JUndefined \<Rightarrow> []
      | JNull \<Rightarrow> ''null''
      | JBool b \<Rightarrow> (if b then ''true'' else ''false'')
      | JStr s \<Rightarrow> s
      | JObj _ \<Rightarrow> ''[object Object]'')"

text \<open>
  The node answers a request to a contract address with call data: either the HTTP
  request fails with a message, or the body \<open>response.data\<close> arrives.
\<close>

type_synonym node = "string \<Rightarrow> string \<Rightarrow> string + jsval"

text \<open>
  \<open>rpcCall\<close>, lines 38 to 63. Whatever is thrown inside \<open>try\<close> is thrown again as
  \<open>RPC request error: ...\<close>, kept here as \<open>RpcRequestError\<close> around its cause.
\<close>

definition rpcCall :: "node \<Rightarrow> string \<Rightarrow> string \<Rightarrow> err + jsval" where
  "rpcCall nd contractAddress data =
     (case
        (case nd contractAddress data of
           Inl msg \<Rightarrow> Inl (TransportError msg)
         | Inr response_data \<Rightarrow>
             (case get_prop response_data ''error'' of
                Inl e \<Rightarrow> Inl e
              | Inr er \<Rightarrow>
                  if truthy er then
                    (case get_prop er ''message'' of
                       Inl e \<Rightarrow> Inl e
                     | Inr m \<Rightarrow> Inl (NodeError (error_message m)))
                  else get_prop response_data ''result''))
      of
        Inl e \<Rightarrow> Inl (RpcRequestError e)
      | Inr v \<Rightarrow> Inr v)"

section \<open>Big integers\<close>

definition whiteSpace :: "char \<Rightarrow> bool" where
  "whiteSpace c = ((of_char c :: nat) \<in> {9, 10, 11, 12, 13, 32})"

definition trim :: "string \<Rightarrow> string" where
  "trim s = rev (dropWhile whiteSpace (rev (dropWhile whiteSpace s)))"

definition digitValue :: "nat \<Rightarrow> char \<Rightarrow> nat option" where
  "digitValue base c =
     (case hexDigit c of
        None \<Rightarrow> None
      | Some d \<Rightarrow> if d < base then Some d else None)"

text \<open>The value of a non-empty run of digits in a base; nothing if a character is no digit.\<close>

fun digitsValue :: "nat \<Rightarrow> nat \<Rightarrow> string \<Rightarrow> nat option" where
  "digitsValue base acc [] = Some acc"
| "digitsValue base acc (c # cs) =
     (case digitValue base c of
        None \<Rightarrow> None
      | Some d \<Rightarrow> digitsValue base (base * acc + d) cs)"

definition parseDigits :: "nat \<Rightarrow> string \<Rightarrow> nat option" where
  "parseDigits base ds = (if ds = [] then None else digitsValue base 0 ds)"

text \<open>
  \<open>BigInt(string)\<close>: white space around the text is dropped (the ASCII white space
  is modelled); an empty text is zero; \<open>0x\<close>, \<open>0o\<close> and \<open>0b\<close> introduce unsigned
  hexadecimal, octal and binary digits; otherwise the text is decimal digits with
  an optional sign. Anything else throws a \<open>SyntaxError\<close>.
\<close>

definition StringToBigInt :: "string \<Rightarrow> err + int" where
  "StringToBigInt s =
     (let t = trim s;
          ok = (\<lambda>r. case r of None \<Rightarrow> Inl SyntaxError | Some n \<Rightarrow> Inr (int n))
      in if t = [] then Inr 0
         else if take 2 t = ''0x'' \<or> take 2 t = ''0X'' then ok (parseDigits 16 (drop 2 t))
         else if take 2 t = ''0o'' \<or> take 2 t = ''0O'' then ok (parseDigits 8 (drop 2 t))
         else if take 2 t = ''0b'' \<or> take 2 t = ''0B'' then ok (parseDigits 2 (drop 2 t))
         else if take 1 t = ''-'' then
           (case parseDigits 10 (drop 1 t) of
              None \<Rightarrow> Inl SyntaxError
            | Some n \<Rightarrow> Inr (- int n))
         else if take 1 t = ''+'' then ok (parseDigits 10 (drop 1 t))
         else ok (parseDigits 10 t))"

text \<open>
  \<open>BigInt(value)\<close>. An object is first turned into a string: \<open>[object Object]\<close>, which
  is no integer, unless a field \<open>toString\<close> hides the method, which is a \<open>TypeError\<close>.
\<close>

definition BigInt :: "jsval \<Rightarrow> err + int" where
  "BigInt v =
     (case v of
        JUndefined \<Rightarrow> Inl TypeError
      | JNull \<Rightarrow> Inl TypeError
      | JBool b \<Rightarrow> Inr (if b then 1 else 0)
      | JStr s \<Rightarrow> StringToBigInt s
      | JObj kvs \<Rightarrow>
          if ''toString'' \<in> set (map fst kvs) then Inl TypeError else Inl SyntaxError)"

text \<open>\<open>n.toString(10)\<close> of a big integer.\<close>

fun natToString :: "nat \<Rightarrow> string" where
  "natToString n =
     (if n < 10 then [char_of (48 + n)]
      else natToString (n div 10) @ [char_of (48 + n mod 10)])"

declare natToString.simps [simp del]

definition bigintToString :: "int \<Rightarrow> string" where
  "bigintToString i = (if i < 0 then ''-'' @ natToString (nat (- i)) else natToString (nat i))"



text \<open>\<open>decodeHexToDecimal\<close>, lines 66 to 68.\<close>

definition decodeHexToDecimal :: "jsval \<Rightarrow> err + string" where
  "decodeHexToDecimal hexValue =
     (case BigInt hexValue of
        Inl e \<Rightarrow> Inl e
      | Inr n \<Rightarrow> Inr (bigintToString n))"

section \<open>The balance of a holder\<close>







record token_balance =
  balance :: string
  symbol :: string



section \<open>Numbers read from text\<close>





section \<open>Assigning the role of a balance\<close>

text \<open>Line 174: the roles the member holds whose name is in \<open>roleNames\<close>.\<close>

definition rolesToRemove :: "guild \<Rightarrow> member \<Rightarrow> role list" where
  "rolesToRemove g m = filter (\<lambda>r. role_name r \<in> set roleNames) (roles_cache g m)"

text \<open>Lines 175 to 177: the loop stops at the first removal that is rejected.\<close>

fun remove_roles :: "guild \<Rightarrow> string \<Rightarrow> role list \<Rightarrow> (err + unit) \<times> guild" where
  "remove_roles g uid [] = (Inr (), g)"
| "remove_roles g uid (r # rs) =
     (case roles_remove g uid r of
        (Inl e, g') \<Rightarrow> (Inl e, g')
      | (Inr _, g') \<Rightarrow> remove_roles g' uid rs)"

record assignment =
  assigned_roleName :: string
  assigned_balance :: jsnum
  assigned_symbol :: string

text \<open>
  \<open>assignRoleByBalance\<close>, lines 172 to 196. The guild comes back as the requests
  left it, also when a step fails.
\<close>

definition assignRoleByBalance ::
  "guild \<Rightarrow> member \<Rightarrow> jsnum \<Rightarrow> string \<Rightarrow> (err + assignment) \<times> guild" where
  "assignRoleByBalance g m balance' symbol' =
     (case remove_roles g (member_id m) (rolesToRemove g m) of
        (Inl e, g1) \<Rightarrow> (Inl e, g1)
      | (Inr _, g1) \<Rightarrow>
     (case resolveRoleName roleThresholds balance' of
        Inl e \<Rightarrow> (Inl e, g1)
      | Inr rn \<Rightarrow>
     (case (case js_find (\<lambda>r. role_name r = rn) (guild_roles g1) of
              Some r \<Rightarrow> (Inr r, g1)
            | None \<Rightarrow> roles_create g1 rn) of
        (Inl e, g2) \<Rightarrow> (Inl e, g2)
      | (Inr r, g2) \<Rightarrow>
     (case roles_add g2 (member_id m) r of
        (Inl e, g3) \<Rightarrow> (Inl e, g3)
      | (Inr _, g3) \<Rightarrow>
          (Inr \<lparr>assigned_roleName = rn, assigned_balance = balance',
                assigned_symbol = symbol'\<rparr>, g3)))))"

section \<open>The daily update\<close>


definition tokenContractAddress :: string where
  "tokenContractAddress = ''0xC967dabf591B1f4B86CFc74996EAD065867aF19E''"





section \<open>Notions used to state the properties\<close>

text \<open>A raw result is well formed when it is an even number of hexadecimal digits.\<close>

definition wellFormedHex :: "string \<Rightarrow> bool" where
  "wellFormedHex h = (even (length h) \<and> list_all (\<lambda>c. hexDigit c \<noteq> None) h)"


text \<open>
  A small guild for the examples: two roles and three members, two of whom have user
  names that differ only in the case of a letter.
\<close>

definition example_guild :: guild where
  "example_guild =
     \<lparr>guild_roles = [\<lparr>role_id = 1, role_name = ''zklHolder''\<rparr>,
                     \<lparr>role_id = 2, role_name = ''moderator''\<rparr>],
      guild_members =
        [\<lparr>member_id = ''10'', username = ''bob'', discriminator = ''0001'', role_ids = [1, 2]\<rparr>,
         \<lparr>member_id = ''11'', username = ''Bob'', discriminator = ''0002'', role_ids = []\<rparr>,
         \<lparr>member_id = ''12'', username = ''carol'', discriminator = ''0003'', role_ids = [2]\<rparr>],
      rejects = (\<lambda>c. False),
      requests = []\<rparr>"

text \<open>A node whose reply carries neither an error nor a result.\<close>

definition silent_node :: node where
  "silent_node contractAddress data = Inr (JObj [(''jsonrpc'', JStr ''2.0'')])"








text \<open>
  The member of a guild with a given identifier, as a fetch finds it, and the roles
  this member holds.
\<close>

definition member_of :: "guild \<Rightarrow> string \<Rightarrow> member option" where
  "member_of g uid = js_find (\<lambda>m. member_id m = uid) (guild_members g)"

definition held_roles :: "guild \<Rightarrow> string \<Rightarrow> role list" where
  "held_roles g uid = (case member_of g uid of None \<Rightarrow> [] | Some m \<Rightarrow> roles_cache g m)"



section \<open>Searching a list\<close>

lemma js_find_None_iff: "js_find p xs = None \<longleftrightarrow> (\<forall>x \<in> set xs. \<not> p x)"
  by (induction xs) auto

lemma js_find_Some_nth:
  "js_find p xs = Some x \<Longrightarrow> \<exists>i<length xs. xs ! i = x \<and> p x \<and> (\<forall>j<i. \<not> p (xs ! j))"
proof (induction xs)
  case Nil
  then show ?case by simp
next
  case (Cons a xs)
  show ?case
  proof (cases "p a")
    case True
    with Cons.prems have "x = a" by simp
    with True show ?thesis by (intro exI [of _ 0]) simp
  next
    case False
    with Cons.prems have "js_find p xs = Some x" by simp
    from Cons.IH [OF this] obtain i where
      i: "i < length xs" "xs ! i = x" "p x" "\<forall>j<i. \<not> p (xs ! j)" by blast
    have "\<forall>j<Suc i. \<not> p ((a # xs) ! j)"
    proof (intro allI impI)
      fix j assume "j < Suc i"
      then show "\<not> p ((a # xs) ! j)" using False i(4) by (cases j) auto
    qed
    with i show ?thesis by (intro exI [of _ "Suc i"]) simp
  qed
qed

lemma js_find_Some_mem: "js_find p xs = Some x \<Longrightarrow> x \<in> set xs \<and> p x"
  by (induction xs) (auto split: if_splits)

section \<open>Properties of the tier table\<close>

lemma resolveRoleName_total: "\<exists>th. js_find (\<lambda>th. js_lt (Fin r) (max_th th)) roleThresholds = Some th"
proof (cases "js_find (\<lambda>th. js_lt (Fin r) (max_th th)) roleThresholds")
  case None
  then have "\<forall>x \<in> set roleThresholds. \<not> js_lt (Fin r) (max_th x)"
    by (simp only: js_find_None_iff)
  then have "\<not> js_lt (Fin r) Infinity" by (simp add: roleThresholds_def)
  then show ?thesis by simp
next
  case (Some th)
  then show ?thesis by simp
qed

text \<open>
  C3. For every balance that is not negative, the role name chosen is that of the first
  entry of the table, read in its order of ascending bounds, whose bound is strictly
  above the balance: no earlier entry has a bound above it. A balance equal to a
  bound therefore falls to the next entry: 4999 and 0 give the first entry, 5000 and
  9999 the second, 10000 the third, 100000 the last.
\<close>

theorem tier_resolution:
  assumes "0 \<le> r"
  shows "(\<exists>i<length roleThresholds.
            resolveRoleName roleThresholds (Fin r) = Inr (roleName (roleThresholds ! i))
            \<and> js_lt (Fin r) (max_th (roleThresholds ! i))
            \<and> (\<forall>j<i. \<not> js_lt (Fin r) (max_th (roleThresholds ! j))))
       \<and> sorted_wrt js_lt (map max_th roleThresholds)
       \<and> resolveRoleName roleThresholds (Fin 4999) = Inr (roleName (roleThresholds ! 0))
       \<and> resolveRoleName roleThresholds (Fin 5000) = Inr (roleName (roleThresholds ! 1))
       \<and> resolveRoleName roleThresholds (Fin 9999) = Inr (roleName (roleThresholds ! 1))
       \<and> resolveRoleName roleThresholds (Fin 10000) = Inr (roleName (roleThresholds ! 2))
       \<and> resolveRoleName roleThresholds (Fin 100000) = Inr (roleName (last roleThresholds))
       \<and> resolveRoleName roleThresholds (Fin 0) = Inr (roleName (roleThresholds ! 0))"
proof -
  obtain th where th: "js_find (\<lambda>th. js_lt (Fin r) (max_th th)) roleThresholds = Some th"
    using resolveRoleName_total by blast
  from js_find_Some_nth [OF th] obtain i where
    "i < length roleThresholds" "roleThresholds ! i = th" "js_lt (Fin r) (max_th th)"
    "\<forall>j<i. \<not> js_lt (Fin r) (max_th (roleThresholds ! j))" by blast
  with th have first: "\<exists>i<length roleThresholds.
            resolveRoleName roleThresholds (Fin r) = Inr (roleName (roleThresholds ! i))
            \<and> js_lt (Fin r) (max_th (roleThresholds ! i))
            \<and> (\<forall>j<i. \<not> js_lt (Fin r) (max_th (roleThresholds ! j)))"
    by (auto simp: resolveRoleName_def)
  have ordered: "sorted_wrt js_lt (map max_th roleThresholds)"
    by (simp add: roleThresholds_def)
  have examples:
    "resolveRoleName roleThresholds (Fin 4999) = Inr (roleName (roleThresholds ! 0))"
    "resolveRoleName roleThresholds (Fin 5000) = Inr (roleName (roleThresholds ! 1))"
    "resolveRoleName roleThresholds (Fin 9999) = Inr (roleName (roleThresholds ! 1))"
    "resolveRoleName roleThresholds (Fin 10000) = Inr (roleName (roleThresholds ! 2))"
    "resolveRoleName roleThresholds (Fin 100000) = Inr (roleName (last roleThresholds))"
    "resolveRoleName roleThresholds (Fin 0) = Inr (roleName (roleThresholds ! 0))"
    by (simp_all add: resolveRoleName_def roleThresholds_def)
  from first ordered examples show ?thesis by blast
qed

text \<open>The statement at the balance 5000, which is not negative.\<close>

theorem tier_resolution_witness:
  "(0::rat) \<le> 5000
   \<and> (\<exists>i<length roleThresholds.
            resolveRoleName roleThresholds (Fin 5000) = Inr (roleName (roleThresholds ! i))
            \<and> js_lt (Fin 5000) (max_th (roleThresholds ! i))
            \<and> (\<forall>j<i. \<not> js_lt (Fin 5000) (max_th (roleThresholds ! j))))"
proof -
  have h: "(0::rat) \<le> 5000" by simp
  have c: "\<exists>i<length roleThresholds.
            resolveRoleName roleThresholds (Fin 5000) = Inr (roleName (roleThresholds ! i))
            \<and> js_lt (Fin 5000) (max_th (roleThresholds ! i))
            \<and> (\<forall>j<i. \<not> js_lt (Fin 5000) (max_th (roleThresholds ! j)))"
    using tier_resolution [OF h] by (rule conjunct1)
  from h c show ?thesis by (rule conjI)
qed

section \<open>Properties of the text decoder\<close>

lemma hexDigit_less: "hexDigit c = Some d \<Longrightarrow> d < 16"
  by (auto simp: hexDigit_def Let_def split: if_splits)

lemma hexDigit_x: "hexDigit CHR ''x'' = None"
  by (simp add: hexDigit_def)

lemma hexDigit_0: "hexDigit CHR ''0'' = Some 0"
  by (simp add: hexDigit_def)

lemma of_char_byte: "x < 16 \<Longrightarrow> y < 16 \<Longrightarrow> (of_char (char_of (16 * x + y :: nat)) :: nat) = 16 * x + y"
  by simp

lemma wellFormedHex_Cons2:
  "wellFormedHex (a # b # rest) \<longleftrightarrow>
     hexDigit a \<noteq> None \<and> hexDigit b \<noteq> None \<and> wellFormedHex rest"
  by (auto simp: wellFormedHex_def)

lemma wellFormedHex_single: "\<not> wellFormedHex [a]"
  by (simp add: wellFormedHex_def)

lemma Buffer_from_hex_length: "wellFormedHex h \<Longrightarrow> length (Buffer_from_hex h) = length h div 2"
proof (induction h rule: Buffer_from_hex.induct)
  case (1 a b rest)
  then show ?case by (auto simp: wellFormedHex_Cons2)
qed (simp_all add: wellFormedHex_single)

lemma Buffer_from_hex_nth:
  "wellFormedHex h \<Longrightarrow> i < length h div 2 \<Longrightarrow>
   (of_char (Buffer_from_hex h ! i) :: nat)
     = 16 * the (hexDigit (h ! (2 * i))) + the (hexDigit (h ! (2 * i + 1)))"
proof (induction h arbitrary: i rule: Buffer_from_hex.induct)
  case (1 a b rest)
  from "1.prems"(1) obtain x y where xy: "hexDigit a = Some x" "hexDigit b = Some y"
    and rest: "wellFormedHex rest"
    by (auto simp: wellFormedHex_Cons2)
  show ?case
  proof (cases i)
    case 0
    with xy show ?thesis using hexDigit_less [OF xy(1)] hexDigit_less [OF xy(2)]
      by (simp add: of_char_byte)
  next
    case (Suc k)
    with "1.prems"(2) have "k < length rest div 2" by simp
    from "1.IH" [OF xy(1) xy(2) rest this] Suc xy show ?thesis by simp
  qed
qed simp_all

lemma wellFormedHex_no_prefix: "wellFormedHex h \<Longrightarrow> take 2 h \<noteq> ''0x''"
proof (cases h rule: Buffer_from_hex.cases)
  case (1 a b rest)
  assume "wellFormedHex h"
  with 1 have "hexDigit b \<noteq> None" by (simp add: wellFormedHex_Cons2)
  with hexDigit_x have "b \<noteq> CHR ''x''" by auto
  with 1 show ?thesis by simp
qed simp_all

lemma replace_control_nul: "replace_control (replace_nul s) = filter (\<lambda>c. \<not> controlChar c) s"
  by (induction s) (auto simp: replace_control_def replace_nul_def controlChar_def)

lemma utf8_toString_ascii:
  "\<forall>c \<in> set bs. (of_char c :: nat) < 128 \<Longrightarrow> utf8_toString None bs = bs"
  by (induction bs) (simp_all add: utf8_lead_def)

lemma Buffer_from_hex_zeros:
  "Buffer_from_hex (replicate (2 * n) CHR ''0'') = replicate n (CHR 0x00)"
proof (induction n)
  case 0
  show ?case by simp
next
  case (Suc n)
  have "char_of (0::nat) = CHR 0x00" by code_simp
  with Suc show ?case by (simp add: hexDigit_0)
qed

lemma Buffer_from_hex_ZKL:
  "Buffer_from_hex (''5a4b4c'' @ replicate (2 * n) CHR ''0'') = ''ZKL'' @ replicate n (CHR 0x00)"
proof -
  have d: "hexDigit CHR ''5'' = Some 5" "hexDigit CHR ''a'' = Some 10"
    "hexDigit CHR ''4'' = Some 4" "hexDigit CHR ''b'' = Some 11" "hexDigit CHR ''c'' = Some 12"
    by (simp_all add: hexDigit_def)
  have c: "char_of (90::nat) = CHR ''Z''" "char_of (75::nat) = CHR ''K''"
    "char_of (76::nat) = CHR ''L''"
    by code_simp+
  show ?thesis by (simp add: d c Buffer_from_hex_zeros)
qed

lemma decodeHexToString_JStr:
  "decodeHexToString (JStr s) =
     Inr (filter (\<lambda>c. \<not> controlChar c)
            (utf8_toString None (Buffer_from_hex (if take 2 s = ''0x'' then drop 2 s else s))))"
  by (simp add: decodeHexToString_def Let_def replace_control_nul)

lemma decodeHexToString_ZKL:
  "decodeHexToString (JStr (''0x5a4b4c'' @ replicate (2 * n) CHR ''0'')) = Inr ''ZKL''"
proof -
  have "utf8_toString None (''ZKL'' @ replicate n (CHR 0x00)) = ''ZKL'' @ replicate n (CHR 0x00)"
    by (rule utf8_toString_ascii) auto
  then show ?thesis
    using Buffer_from_hex_ZKL [of n]
    by (simp add: decodeHexToString_JStr controlChar_def)
qed

text \<open>
  C8. For every well-formed hexadecimal raw result, the text decoder gives the same
  text with and without the prefix \<open>0x\<close>; each pair of digits is read as one byte;
  the bytes are decoded as UTF-8 (bytes that are all ASCII are the text itself); and
  no NUL, C0 or DEL character is left in the result. So the bytes of \<open>ZKL\<close> followed
  by any number of zero bytes decode to exactly \<open>ZKL\<close>.
\<close>

theorem decodeHexToString_well_formed:
  assumes "wellFormedHex h"
  shows "decodeHexToString (JStr (''0x'' @ h)) = decodeHexToString (JStr h)
       \<and> decodeHexToString (JStr h)
           = Inr (filter (\<lambda>c. \<not> controlChar c) (utf8_toString None (Buffer_from_hex h)))
       \<and> length (Buffer_from_hex h) = length h div 2
       \<and> (\<forall>i < length h div 2.
             (of_char (Buffer_from_hex h ! i) :: nat)
               = 16 * the (hexDigit (h ! (2 * i))) + the (hexDigit (h ! (2 * i + 1))))
       \<and> ((\<forall>c \<in> set (Buffer_from_hex h). (of_char c :: nat) < 128) \<longrightarrow>
             decodeHexToString (JStr h) = Inr (filter (\<lambda>c. \<not> controlChar c) (Buffer_from_hex h)))
       \<and> (\<forall>t. decodeHexToString (JStr h) = Inr t \<longrightarrow> (\<forall>c \<in> set t. \<not> controlChar c))
       \<and> decodeHexToString (JStr (''0x5a4b4c'' @ replicate (2 * n) CHR ''0'')) = Inr ''ZKL''"
proof -
  have plain: "decodeHexToString (JStr h)
           = Inr (filter (\<lambda>c. \<not> controlChar c) (utf8_toString None (Buffer_from_hex h)))"
    using wellFormedHex_no_prefix [OF assms] by (simp add: decodeHexToString_JStr)
  have prefixed: "decodeHexToString (JStr (''0x'' @ h)) = decodeHexToString (JStr h)"
    unfolding plain by (simp add: decodeHexToString_JStr)
  have bytes: "\<forall>i < length h div 2.
             (of_char (Buffer_from_hex h ! i) :: nat)
               = 16 * the (hexDigit (h ! (2 * i))) + the (hexDigit (h ! (2 * i + 1)))"
    using Buffer_from_hex_nth [OF assms] by blast
  have ascii: "(\<forall>c \<in> set (Buffer_from_hex h). (of_char c :: nat) < 128) \<longrightarrow>
             decodeHexToString (JStr h) = Inr (filter (\<lambda>c. \<not> controlChar c) (Buffer_from_hex h))"
    unfolding plain by (simp add: utf8_toString_ascii)
  have clean: "\<forall>t. decodeHexToString (JStr h) = Inr t \<longrightarrow> (\<forall>c \<in> set t. \<not> controlChar c)"
    unfolding plain by auto
  note zkl = decodeHexToString_ZKL [of n]
  from prefixed plain Buffer_from_hex_length [OF assms] bytes ascii clean zkl
  show ?thesis by blast
qed

text \<open>The statement at the raw result \<open>5a4b4c0000\<close>, and with 29 bytes of padding.\<close>

theorem decodeHexToString_well_formed_witness:
  "wellFormedHex ''5a4b4c0000''
   \<and> decodeHexToString (JStr ''0x5a4b4c0000'') = decodeHexToString (JStr ''5a4b4c0000'')
   \<and> decodeHexToString (JStr (''0x5a4b4c'' @ replicate (2 * 29) CHR ''0'')) = Inr ''ZKL''"
proof -
  have h: "wellFormedHex ''5a4b4c0000''"
    by (simp add: wellFormedHex_def hexDigit_def)
  from decodeHexToString_well_formed [OF h, of 29]
  have "decodeHexToString (JStr (''0x'' @ ''5a4b4c0000'')) = decodeHexToString (JStr ''5a4b4c0000'')"
    and "decodeHexToString (JStr (''0x5a4b4c'' @ replicate (2 * 29) CHR ''0'')) = Inr ''ZKL''"
    by blast+
  with h show ?thesis by simp
qed

lemma utf8_toString_invalid_byte:
  assumes "(128 \<le> (of_char c :: nat) \<and> (of_char c :: nat) < 194) \<or> 245 \<le> (of_char c :: nat)"
  shows "utf8_toString None [c] = replacement"
  using assms by (auto simp: utf8_lead_def Let_def)

lemma replacement_kept: "filter (\<lambda>c. \<not> controlChar c) replacement = replacement"
  by (simp add: replacement_def controlChar_def)

text \<open>
  C6, as stated, fails: the single byte \<open>ff\<close> is no UTF-8 sequence, and the
  decoder does not fall back to the empty string; it returns the replacement
  character U+FFFD.
\<close>

theorem decodeHexToString_invalid_bytes_counterexample:
  "decodeHexToString (JStr ''0xff'') = Inr [CHR 0xEF, CHR 0xBF, CHR 0xBD]
   \<and> decodeHexToString (JStr ''0xff'') \<noteq> Inr ''''"
proof -
  have "decodeHexToString (JStr ''0xff'') = Inr [CHR 0xEF, CHR 0xBF, CHR 0xBD]"
    by code_simp
  then show ?thesis by simp
qed

text \<open>
  C6, amended. For every string the text decoder returns a string and raises
  nothing. An empty raw result, with or without the prefix \<open>0x\<close>, gives the empty
  string. Invalid bytes do not give the empty string: a byte that cannot begin a
  UTF-8 sequence (\<open>80\<close> to \<open>C1\<close>, \<open>F5\<close> to \<open>FF\<close>) is decoded to U+FFFD.
\<close>

theorem decodeHexToString_replaces_invalid:
  "(\<exists>t. decodeHexToString (JStr s) = Inr t)
   \<and> decodeHexToString (JStr '''') = Inr ''''
   \<and> decodeHexToString (JStr ''0x'') = Inr ''''
   \<and> (hexDigit a = Some x \<and> hexDigit b = Some y
        \<and> ((128 \<le> 16 * x + y \<and> 16 * x + y < 194) \<or> 245 \<le> 16 * x + y)
      \<longrightarrow> decodeHexToString (JStr [a, b]) = Inr replacement
          \<and> decodeHexToString (JStr (''0x'' @ [a, b])) = Inr replacement)"
proof -
  have total: "\<exists>t. decodeHexToString (JStr s) = Inr t"
    by (simp add: decodeHexToString_JStr)
  have empty: "decodeHexToString (JStr '''') = Inr ''''" "decodeHexToString (JStr ''0x'') = Inr ''''"
    by (simp_all add: decodeHexToString_JStr)
  have invalid: "decodeHexToString (JStr [a, b]) = Inr replacement
          \<and> decodeHexToString (JStr (''0x'' @ [a, b])) = Inr replacement"
    if xy: "hexDigit a = Some x" "hexDigit b = Some y"
      and bad: "(128 \<le> 16 * x + y \<and> 16 * x + y < 194) \<or> 245 \<le> 16 * x + y"
  proof -
    have byte: "(of_char (char_of (16 * x + y)) :: nat) = 16 * x + y"
      using hexDigit_less [OF xy(1)] hexDigit_less [OF xy(2)] by (rule of_char_byte)
    have buf: "Buffer_from_hex [a, b] = [char_of (16 * x + y)]"
      using xy by simp
    have "b \<noteq> CHR ''x''" using xy(2) hexDigit_x by auto
    then have nopre: "take 2 [a, b] \<noteq> ''0x''" by simp
    have u: "utf8_toString None [char_of (16 * x + y)] = replacement"
      by (rule utf8_toString_invalid_byte) (use bad byte in simp)
    have d1: "decodeHexToString (JStr [a, b])
        = Inr (filter (\<lambda>c. \<not> controlChar c) (utf8_toString None (Buffer_from_hex [a, b])))"
      using nopre by (simp only: decodeHexToString_JStr if_False)
    have d2: "decodeHexToString (JStr (''0x'' @ [a, b]))
        = Inr (filter (\<lambda>c. \<not> controlChar c) (utf8_toString None (Buffer_from_hex [a, b])))"
      by (simp add: decodeHexToString_JStr del: Buffer_from_hex.simps)
    show ?thesis
      unfolding d1 d2 buf u replacement_kept by simp
  qed
  from total empty invalid show ?thesis by blast
qed

text \<open>The statement at the byte \<open>ff\<close>.\<close>

theorem decodeHexToString_replaces_invalid_witness:
  "hexDigit CHR ''f'' = Some 15
   \<and> 245 \<le> 16 * 15 + (15::nat)
   \<and> decodeHexToString (JStr ''ff'') = Inr replacement
   \<and> decodeHexToString (JStr ''0xff'') = Inr replacement"
proof -
  have f: "hexDigit CHR ''f'' = Some 15" by (simp add: hexDigit_def)
  have r: "245 \<le> 16 * 15 + (15::nat)"
    by simp
  from decodeHexToString_replaces_invalid [of "''''" "CHR ''f''" 15 "CHR ''f''" 15] f r
  have "decodeHexToString (JStr ''ff'') = Inr replacement
      \<and> decodeHexToString (JStr (''0x'' @ ''ff'')) = Inr replacement"
    by blast
  with f r show ?thesis by simp
qed

section \<open>Properties of the resolution of users\<close>

lemma isDigit_not_marks:
  "\<not> isDigit CHR ''>''" "\<not> isDigit CHR ''!''" "\<not> isDigit CHR ''<''" "\<not> isDigit CHR ''#''"
  by (simp_all add: isDigit_def)

lemma takeWhile_digits_then: "list_all isDigit ds \<Longrightarrow> takeWhile isDigit (ds @ ''>'') = ds"
  by (induction ds) (simp_all add: isDigit_not_marks)

lemma dropWhile_digits_then: "list_all isDigit ds \<Longrightarrow> dropWhile isDigit (ds @ ''>'') = ''>''"
  by (induction ds) (simp_all add: isDigit_not_marks)

lemma allDigits_hd: "allDigits ds \<Longrightarrow> \<exists>d rest. ds = d # rest \<and> isDigit d"
  by (cases ds) (simp_all add: allDigits_def)

lemma mentionMatch_plain:
  assumes "allDigits ds"
  shows "mentionMatch (''<@'' @ ds @ ''>'') = Some ds"
proof -
  from allDigits_hd [OF assms] obtain d rest where ds: "ds = d # rest" "isDigit d" by blast
  then have "d \<noteq> CHR ''!''" using isDigit_not_marks by auto
  then have no_bang: "take 1 (ds @ ''>'') \<noteq> ''!''" using ds by simp
  from assms have all: "list_all isDigit ds" and ne: "ds \<noteq> []" by (simp_all add: allDigits_def)
  show ?thesis
    using no_bang ne takeWhile_digits_then [OF all] dropWhile_digits_then [OF all]
    by (simp add: mentionMatch_def Let_def)
qed

lemma mentionMatch_bang:
  assumes "allDigits ds"
  shows "mentionMatch (''<@!'' @ ds @ ''>'') = Some ds"
proof -
  from assms have all: "list_all isDigit ds" and ne: "ds \<noteq> []" by (simp_all add: allDigits_def)
  show ?thesis
    using ne takeWhile_digits_then [OF all] dropWhile_digits_then [OF all]
    by (simp add: mentionMatch_def Let_def)
qed

lemma mentionMatch_digits:
  assumes "allDigits ds"
  shows "mentionMatch ds = None"
proof -
  from allDigits_hd [OF assms] obtain d rest where ds: "ds = d # rest" "isDigit d" by blast
  then have "d \<noteq> CHR ''<''" using isDigit_not_marks by auto
  with ds have "take 2 ds \<noteq> ''<@''" by (cases rest) simp_all
  then show ?thesis by (simp add: mentionMatch_def)
qed

lemma is_member_find:
  "is_member g uid \<longleftrightarrow> js_find (\<lambda>m. member_id m = uid) (guild_members g) \<noteq> None"
  unfolding is_member_def by (induction "guild_members g" arbitrary: g) (auto simp: js_find_None_iff)

text \<open>
  C10. For every input in mention syntax, \<open><@digits>\<close> or \<open><@!digits>\<close>, the
  resolution returns the digits and asks the platform nothing: the guild comes back
  with no request added. The bare digits, in contrast, are looked up: one request
  for the member is made, and the result is "not found" unless the member is
  fetched. So a mention of someone who is not a member resolves to the identifier.
\<close>

theorem mention_resolves_without_lookup:
  assumes "allDigits ds"
  shows "resolveUserId g (''<@'' @ ds @ ''>'') = (Inr (Some ds), g)
       \<and> resolveUserId g (''<@!'' @ ds @ ''>'') = (Inr (Some ds), g)
       \<and> fst (resolveUserId g ds)
           = (if \<not> rejects g (FetchMember ds) \<and> is_member g ds then Inr (Some ds) else Inr None)
       \<and> requests (snd (resolveUserId g ds)) = requests g @ [FetchMember ds]"
proof -
  have plain: "resolveUserId g (''<@'' @ ds @ ''>'') = (Inr (Some ds), g)"
    using mentionMatch_plain [OF assms] by (simp add: resolveUserId_def)
  have bang: "resolveUserId g (''<@!'' @ ds @ ''>'') = (Inr (Some ds), g)"
    using mentionMatch_bang [OF assms] by (simp add: resolveUserId_def)
  have numeric: "resolveUserId g ds =
      (case members_fetch g ds of
         (Inr _, g') \<Rightarrow> (Inr (Some ds), g')
       | (Inl _, g') \<Rightarrow> (Inr None, g'))"
    using mentionMatch_digits [OF assms] assms by (simp add: resolveUserId_def)
  have looked_up: "fst (resolveUserId g ds)
           = (if \<not> rejects g (FetchMember ds) \<and> is_member g ds then Inr (Some ds) else Inr None)"
  proof (cases "js_find (\<lambda>m. member_id m = ds) (guild_members g)")
    case None
    then have "\<not> is_member g ds" by (simp add: is_member_find)
    with None show ?thesis unfolding numeric by (simp add: members_fetch_def Let_def)
  next
    case (Some m)
    then have "is_member g ds" by (simp add: is_member_find)
    with Some show ?thesis unfolding numeric by (simp add: members_fetch_def Let_def)
  qed
  have asked: "requests (snd (resolveUserId g ds)) = requests g @ [FetchMember ds]"
    unfolding numeric
    by (cases "js_find (\<lambda>m. member_id m = ds) (guild_members g)")
       (auto simp: members_fetch_def Let_def request_def)
  from plain bang looked_up asked show ?thesis by blast
qed

text \<open>The statement at \<open>999\<close>, which is no member of the example guild.\<close>

theorem mention_resolves_without_lookup_witness:
  "allDigits ''999''
   \<and> \<not> is_member example_guild ''999''
   \<and> resolveUserId example_guild ''<@999>'' = (Inr (Some ''999''), example_guild)
   \<and> resolveUserId example_guild ''<@!999>'' = (Inr (Some ''999''), example_guild)
   \<and> fst (resolveUserId example_guild ''999'') = Inr None"
proof -
  have d: "allDigits ''999''" by (simp add: allDigits_def isDigit_def)
  have n: "\<not> is_member example_guild ''999''" by (simp add: is_member_def example_guild_def)
  from mention_resolves_without_lookup [OF d, of example_guild] n
  have "resolveUserId example_guild (''<@'' @ ''999'' @ ''>'') = (Inr (Some ''999''), example_guild)"
    and "resolveUserId example_guild (''<@!'' @ ''999'' @ ''>'') = (Inr (Some ''999''), example_guild)"
    and "fst (resolveUserId example_guild ''999'') = Inr None"
    by simp_all
  with d n show ?thesis by simp
qed

lemma split_on_nonempty: "split_on sep s \<noteq> []"
  by (induction s) (auto split: list.splits)





section \<open>Properties of the call to the node\<close>

text \<open>
  C5, as stated, fails: on a reply with neither an error nor a result, the call does
  not fail; it returns \<open>undefined\<close> to its caller.
\<close>

theorem rpcCall_missing_result_counterexample:
  "rpcCall silent_node tokenContractAddress ''0x313ce567'' = Inr JUndefined"
  by (simp add: rpcCall_def silent_node_def get_prop_def truthy_def)

text \<open>
  C5, amended. For every reply that is an object with neither an \<open>error\<close> field nor a
  \<open>result\<close> field, the call to the node raises nothing and returns \<open>undefined\<close>. The
  decoders are what fails on that value afterwards, each with a \<open>TypeError\<close>.
\<close>

theorem rpcCall_missing_result:
  assumes "nd contractAddress data = Inr (JObj kvs)"
    and "''error'' \<notin> set (map fst kvs)"
    and "''result'' \<notin> set (map fst kvs)"
  shows "rpcCall nd contractAddress data = Inr JUndefined
       \<and> decodeHexToDecimal JUndefined = Inl TypeError
       \<and> decodeHexToString JUndefined = Inl TypeError"
proof -
  have absent: "map_of (rev kvs) k = None" if "k \<notin> set (map fst kvs)" for k
    using that by (simp add: map_of_eq_None_iff)
  from assms(2) have e: "get_prop (JObj kvs) ''error'' = Inr JUndefined"
    by (simp add: get_prop_def absent)
  from assms(3) have r: "get_prop (JObj kvs) ''result'' = Inr JUndefined"
    by (simp add: get_prop_def absent)
  have "rpcCall nd contractAddress data = Inr JUndefined"
    by (simp add: rpcCall_def assms(1) e r truthy_def)
  moreover have "decodeHexToDecimal JUndefined = Inl TypeError"
    by (simp add: decodeHexToDecimal_def BigInt_def)
  moreover have "decodeHexToString JUndefined = Inl TypeError"
    by (simp add: decodeHexToString_def)
  ultimately show ?thesis by blast
qed

text \<open>The statement at the node that replies with the protocol version alone.\<close>

theorem rpcCall_missing_result_witness:
  "silent_node tokenContractAddress ''0x313ce567'' = Inr (JObj [(''jsonrpc'', JStr ''2.0'')])
   \<and> ''error'' \<notin> set (map fst [(''jsonrpc'', JStr ''2.0'')])
   \<and> ''result'' \<notin> set (map fst [(''jsonrpc'', JStr ''2.0'')])
   \<and> rpcCall silent_node tokenContractAddress ''0x313ce567'' = Inr JUndefined"
proof -
  have a: "silent_node tokenContractAddress ''0x313ce567'' = Inr (JObj [(''jsonrpc'', JStr ''2.0'')])"
    by (simp add: silent_node_def)
  have b: "''error'' \<notin> set (map fst [(''jsonrpc'', JStr ''2.0'')])" by simp
  have c: "''result'' \<notin> set (map fst [(''jsonrpc'', JStr ''2.0'')])" by simp
  from rpcCall_missing_result
         [of silent_node tokenContractAddress "''0x313ce567''" "[(''jsonrpc'', JStr ''2.0'')]",
          OF a b c]
  have "rpcCall silent_node tokenContractAddress ''0x313ce567'' = Inr JUndefined"
    by (rule conjunct1)
  with a b c show ?thesis by blast
qed

section \<open>Properties of the balance\<close>






















subsection \<open>The example node\<close>








section \<open>Properties of the assignment of roles\<close>

subsection \<open>What each request does to the guild\<close>

lemma member_of_update:
  "member_of (update_member g uid f) uid
     = map_option (\<lambda>m. m\<lparr>role_ids := f (role_ids m)\<rparr>) (member_of g uid)"
proof -
  have "js_find (\<lambda>m. member_id m = uid)
          (map (\<lambda>m. if member_id m = uid then m\<lparr>role_ids := f (role_ids m)\<rparr> else m) ms)
        = map_option (\<lambda>m. m\<lparr>role_ids := f (role_ids m)\<rparr>) (js_find (\<lambda>m. member_id m = uid) ms)"
    for ms
    by (induction ms) simp_all
  then show ?thesis by (simp add: member_of_def update_member_def)
qed

lemma update_member_fields:
  "guild_roles (update_member g uid f) = guild_roles g"
  "rejects (update_member g uid f) = rejects g"
  "requests (update_member g uid f) = requests g"
  by (simp_all add: update_member_def)

lemma request_fields:
  "guild_roles (request g c) = guild_roles g"
  "guild_members (request g c) = guild_members g"
  "rejects (request g c) = rejects g"
  "requests (request g c) = requests g @ [c]"
  by (simp_all add: request_def)

lemma member_of_request: "member_of (request g c) uid = member_of g uid"
  by (simp add: member_of_def request_fields)

lemma is_member_member_of: "is_member g uid \<longleftrightarrow> member_of g uid \<noteq> None"
  by (simp add: is_member_find member_of_def)

lemma roles_remove_requests:
  "roles_remove g uid r = (res, g') \<Longrightarrow>
     requests g' = requests g @ [RemoveRole uid (role_id r)]
     \<and> guild_roles g' = guild_roles g \<and> rejects g' = rejects g"
  by (auto simp: roles_remove_def Let_def request_fields update_member_fields split: if_splits)

lemma roles_remove_ok:
  assumes "roles_remove g uid r = (Inr u, g')"
  shows "member_of g' uid
           = map_option (\<lambda>m. m\<lparr>role_ids := filter (\<lambda>i. i \<noteq> role_id r) (role_ids m)\<rparr>)
               (member_of g uid)"
  using assms
  by (auto simp: roles_remove_def Let_def member_of_update member_of_request split: if_splits)

lemma remove_roles_requests:
  "remove_roles g uid rs = (res, g') \<Longrightarrow>
     guild_roles g' = guild_roles g \<and> rejects g' = rejects g
     \<and> (\<exists>k \<le> length rs.
           requests g' = requests g @ map (\<lambda>r. RemoveRole uid (role_id r)) (take k rs))"
proof (induction rs arbitrary: g)
  case Nil
  then show ?case by simp
next
  case (Cons r rs)
  obtain res1 g1 where step: "roles_remove g uid r = (res1, g1)" by (cases "roles_remove g uid r")
  note one = roles_remove_requests [OF step]
  show ?case
  proof (cases res1)
    case (Inl e)
    with Cons.prems step have "g' = g1" by simp
    with one have "requests g' = requests g @ map (\<lambda>r. RemoveRole uid (role_id r)) (take 1 (r # rs))"
      by simp
    with one \<open>g' = g1\<close> show ?thesis by (intro conjI exI [of _ 1]) simp_all
  next
    case (Inr u)
    with Cons.prems step have "remove_roles g1 uid rs = (res, g')" by simp
    from Cons.IH [OF this] obtain k where k: "k \<le> length rs"
      "requests g' = requests g1 @ map (\<lambda>r. RemoveRole uid (role_id r)) (take k rs)"
      and same: "guild_roles g' = guild_roles g1" "rejects g' = rejects g1" by blast
    from k one have "requests g' = requests g @ map (\<lambda>r. RemoveRole uid (role_id r)) (take (Suc k) (r # rs))"
      by simp
    with k(1) same one show ?thesis by (intro conjI exI [of _ "Suc k"]) simp_all
  qed
qed

lemma remove_roles_ok:
  "remove_roles g uid rs = (Inr u, g') \<Longrightarrow>
     requests g' = requests g @ map (\<lambda>r. RemoveRole uid (role_id r)) rs
     \<and> member_of g' uid
           = map_option (\<lambda>m. m\<lparr>role_ids := filter (\<lambda>i. i \<notin> role_id ` set rs) (role_ids m)\<rparr>)
               (member_of g uid)"
proof (induction rs arbitrary: g)
  case Nil
  then show ?case by (cases "member_of g uid") simp_all
next
  case (Cons r rs)
  obtain res1 g1 where step: "roles_remove g uid r = (res1, g1)" by (cases "roles_remove g uid r")
  with Cons.prems obtain u1 where ok: "res1 = Inr u1" and rest: "remove_roles g1 uid rs = (Inr u, g')"
    by (cases res1) simp_all
  note one = roles_remove_requests [OF step] roles_remove_ok [OF step [unfolded ok]]
  from Cons.IH [OF rest] one show ?case
    by (cases "member_of g uid") (simp_all add: conj_commute)
qed

lemma fresh_role_id_new: "fresh_role_id g \<notin> role_id ` set (guild_roles g)"
proof -
  have "x \<le> foldr max xs 0" if "x \<in> set xs" for x :: nat and xs
    using that by (induction xs) (auto simp: max_def)
  then have lt: "role_id r < fresh_role_id g" if "r \<in> set (guild_roles g)" for r
    using that by (force simp: fresh_role_id_def less_Suc_eq_le)
  show ?thesis
  proof
    assume "fresh_role_id g \<in> role_id ` set (guild_roles g)"
    then obtain r where "r \<in> set (guild_roles g)" "fresh_role_id g = role_id r" by auto
    with lt [of r] show False by simp
  qed
qed

lemma roles_create_requests:
  "roles_create g nm = (res, g') \<Longrightarrow>
     requests g' = requests g @ [CreateRole nm] \<and> guild_members g' = guild_members g
     \<and> rejects g' = rejects g"
  by (auto simp: roles_create_def Let_def request_def split: if_splits)

lemma roles_create_ok:
  assumes "roles_create g nm = (Inr r, g')"
  shows "guild_roles g' = guild_roles g @ [r] \<and> role_name r = nm
       \<and> role_id r \<notin> role_id ` set (guild_roles g)"
  using assms fresh_role_id_new [of g]
  by (auto simp: roles_create_def Let_def request_def split: if_splits)

lemma roles_add_requests:
  "roles_add g uid r = (res, g') \<Longrightarrow>
     requests g' = requests g @ [AddRole uid (role_id r)]
     \<and> guild_roles g' = guild_roles g \<and> rejects g' = rejects g"
  by (auto simp: roles_add_def Let_def request_fields update_member_fields split: if_splits)

lemma roles_add_ok:
  assumes "roles_add g uid r = (Inr u, g')"
  shows "\<exists>m m'. member_of g uid = Some m \<and> member_of g' uid = Some m'
           \<and> set (role_ids m') = insert (role_id r) (set (role_ids m))"
proof -
  from assms have mem: "is_member g uid"
    and g': "g' = update_member (request g (AddRole uid (role_id r))) uid
                    (\<lambda>ids. if role_id r \<in> set ids then ids else ids @ [role_id r])"
    by (auto simp: roles_add_def Let_def split: if_splits)
  from mem obtain m where m: "member_of g uid = Some m"
    by (auto simp: is_member_member_of)
  show ?thesis
    unfolding g' by (auto simp: member_of_update member_of_request m)
qed

lemma resolveRoleName_label:
  "resolveRoleName ladder b = Inr rn \<Longrightarrow> rn \<in> set (map roleName ladder)"
  by (auto simp: resolveRoleName_def split: option.splits dest!: js_find_Some_mem)

subsection \<open>A successful assignment, step by step\<close>

lemma assignRoleByBalance_ok:
  assumes "assignRoleByBalance g m b s = (Inr a, g')"
  obtains g1 g2 r where
    "remove_roles g (member_id m) (rolesToRemove g m) = (Inr (), g1)"
    and "resolveRoleName roleThresholds b = Inr (assigned_roleName a)"
    and "(js_find (\<lambda>r. role_name r = assigned_roleName a) (guild_roles g1) = Some r \<and> g2 = g1)
         \<or> (js_find (\<lambda>r. role_name r = assigned_roleName a) (guild_roles g1) = None
            \<and> roles_create g1 (assigned_roleName a) = (Inr r, g2))"
    and "roles_add g2 (member_id m) r = (Inr (), g')"
proof -
  obtain res1 g1 where s1: "remove_roles g (member_id m) (rolesToRemove g m) = (res1, g1)"
    by (cases "remove_roles g (member_id m) (rolesToRemove g m)")
  from assms obtain u1 where r1: "res1 = Inr u1"
    unfolding assignRoleByBalance_def s1 by (cases res1) simp_all
  note s1 = s1 [unfolded r1]
  from assms obtain rn where s2: "resolveRoleName roleThresholds b = Inr rn"
    unfolding assignRoleByBalance_def s1
    by (cases "resolveRoleName roleThresholds b") simp_all
  define step3 where "step3 = (case js_find (\<lambda>r. role_name r = rn) (guild_roles g1) of
        Some r \<Rightarrow> (Inr r, g1) | None \<Rightarrow> roles_create g1 rn)"
  obtain res3 g2 where s3: "step3 = (res3, g2)" by (cases step3)
  from assms have a3: "(case step3 of
        (Inl e, g2) \<Rightarrow> (Inl e, g2)
      | (Inr r, g2) \<Rightarrow>
          (case roles_add g2 (member_id m) r of
             (Inl e, g3) \<Rightarrow> (Inl e, g3)
           | (Inr _, g3) \<Rightarrow>
               (Inr \<lparr>assigned_roleName = rn, assigned_balance = b, assigned_symbol = s\<rparr>, g3)))
      = (Inr a, g')"
    unfolding assignRoleByBalance_def s1 s2 step3_def by simp
  from a3 obtain r where r3: "res3 = Inr r"
    unfolding s3 by (cases res3) simp_all
  note s3 = s3 [unfolded r3]
  obtain res4 g3 where s4: "roles_add g2 (member_id m) r = (res4, g3)"
    by (cases "roles_add g2 (member_id m) r")
  from a3 obtain u2 where r4: "res4 = Inr u2"
    unfolding s3 by (cases res4) (simp_all add: s4)
  from a3 have fin: "g' = g3" "assigned_roleName a = rn"
    unfolding s3 by (auto simp: s4 r4)
  from s3 have
    "(js_find (\<lambda>r. role_name r = rn) (guild_roles g1) = Some r \<and> g2 = g1)
     \<or> (js_find (\<lambda>r. role_name r = rn) (guild_roles g1) = None
        \<and> roles_create g1 rn = (Inr r, g2))"
    unfolding step3_def by (cases "js_find (\<lambda>r. role_name r = rn) (guild_roles g1)") simp_all
  with s1 s2 s4 r4 fin that show thesis by simp
qed

lemma filter_only:
  assumes "distinct xs" and "r \<in> set xs" and "\<And>x. x \<in> set xs \<Longrightarrow> P x \<longleftrightarrow> x = r"
  shows "filter P xs = [r]"
proof -
  have "filter P xs = filter (\<lambda>x. x = r) xs"
    using assms(3) by (intro filter_cong) auto
  also have "\<dots> = [r]"
    using assms(1,2) by (induction xs) (auto simp: filter_empty_conv)
  finally show ?thesis .
qed

text \<open>
  C1. For every member of a guild whose roles have distinct identifiers, after
  \<open>assignRoleByBalance\<close> has completed without error, the roles the member holds whose
  name is in the table's list of names are exactly one role, and its name is the one
  resolved from the balance.
\<close>

theorem exactly_one_tier_role:
  assumes "distinct (map role_id (guild_roles g))"
    and "member_of g uid = Some m"
    and "assignRoleByBalance g m b s = (Inr a, g')"
  shows "\<exists>r. filter (\<lambda>r. role_name r \<in> set roleNames) (held_roles g' uid) = [r]
           \<and> role_name r = assigned_roleName a
           \<and> resolveRoleName roleThresholds b = Inr (assigned_roleName a)"
proof -
  let ?rn = "assigned_roleName a"
  let ?R = "rolesToRemove g m"
  from assms(2) have uid: "member_id m = uid"
    by (auto simp: member_of_def dest: js_find_Some_mem)
  from assignRoleByBalance_ok [OF assms(3)] obtain g1 g2 r where
    rem0: "remove_roles g (member_id m) (rolesToRemove g m) = (Inr (), g1)"
    and res: "resolveRoleName roleThresholds b = Inr (assigned_roleName a)"
    and role: "(js_find (\<lambda>r. role_name r = assigned_roleName a) (guild_roles g1) = Some r \<and> g2 = g1)
         \<or> (js_find (\<lambda>r. role_name r = assigned_roleName a) (guild_roles g1) = None
            \<and> roles_create g1 (assigned_roleName a) = (Inr r, g2))"
    and add0: "roles_add g2 (member_id m) r = (Inr (), g')"
    by blast
  note rem = rem0 [unfolded uid] and add = add0 [unfolded uid]
  \<comment> \<open>after the removals\<close>
  from remove_roles_requests [OF rem] have roles1: "guild_roles g1 = guild_roles g" by simp
  from remove_roles_ok [OF rem] assms(2)
  have m1: "member_of g1 uid
      = Some (m\<lparr>role_ids := filter (\<lambda>i. i \<notin> role_id ` set ?R) (role_ids m)\<rparr>)"
    by simp
  \<comment> \<open>the role found or created\<close>
  have step: "r \<in> set (guild_roles g2) \<and> role_name r = ?rn
      \<and> distinct (map role_id (guild_roles g2))
      \<and> (\<forall>x \<in> set (guild_roles g2). x \<noteq> r \<longrightarrow> x \<in> set (guild_roles g))
      \<and> member_of g2 uid = member_of g1 uid"
    using role
  proof
    assume "js_find (\<lambda>r. role_name r = ?rn) (guild_roles g1) = Some r \<and> g2 = g1"
    then have found: "js_find (\<lambda>r. role_name r = ?rn) (guild_roles g1) = Some r"
      and same: "g2 = g1" by simp_all
    from js_find_Some_mem [OF found] same roles1 assms(1) show ?thesis by simp
  next
    assume "js_find (\<lambda>r. role_name r = ?rn) (guild_roles g1) = None
            \<and> roles_create g1 ?rn = (Inr r, g2)"
    then have created: "roles_create g1 ?rn = (Inr r, g2)" by simp
    from roles_create_ok [OF created] roles_create_requests [OF created] roles1 assms(1)
    show ?thesis by (auto simp: member_of_def)
  qed
  then have r: "r \<in> set (guild_roles g2)" "role_name r = ?rn"
    and dist2: "distinct (map role_id (guild_roles g2))"
    and old: "\<And>x. x \<in> set (guild_roles g2) \<Longrightarrow> x \<noteq> r \<Longrightarrow> x \<in> set (guild_roles g)"
    and mem2: "member_of g2 uid = member_of g1 uid"
    by blast+
  \<comment> \<open>after the role is added\<close>
  from roles_add_requests [OF add] have roles3: "guild_roles g' = guild_roles g2" by simp
  from roles_add_ok [OF add] mem2 m1 obtain m' where
    m': "member_of g' uid = Some m'"
    and ids': "set (role_ids m')
        = insert (role_id r) (set (filter (\<lambda>i. i \<notin> role_id ` set ?R) (role_ids m)))"
    by auto
  have held: "held_roles g' uid
      = filter (\<lambda>x. role_id x \<in> set (role_ids m')) (guild_roles g2)"
    by (simp add: held_roles_def m' roles_cache_def roles3)
  from res have label: "?rn \<in> set roleNames"
    by (auto simp: roleNames_def dest: resolveRoleName_label)
  have only: "(role_name x \<in> set roleNames \<and> role_id x \<in> set (role_ids m')) \<longleftrightarrow> x = r"
    if x: "x \<in> set (guild_roles g2)" for x
  proof
    assume "x = r"
    with r label ids' show "role_name x \<in> set roleNames \<and> role_id x \<in> set (role_ids m')"
      by simp
  next
    assume h: "role_name x \<in> set roleNames \<and> role_id x \<in> set (role_ids m')"
    show "x = r"
    proof (rule ccontr)
      assume ne: "x \<noteq> r"
      from dist2 x r(1) ne have "role_id x \<noteq> role_id r"
        by (auto simp: distinct_map inj_on_def)
      with h ids' have kept: "role_id x \<in> set (role_ids m)" "role_id x \<notin> role_id ` set ?R"
        by auto
      from old [OF x ne] h kept(1) have "x \<in> set ?R"
        by (simp add: rolesToRemove_def roles_cache_def)
      with kept(2) show False by blast
    qed
  qed
  from dist2 have dx: "distinct (guild_roles g2)" by (simp add: distinct_map)
  have "filter (\<lambda>r. role_name r \<in> set roleNames) (held_roles g' uid)
      = filter (\<lambda>x. role_name x \<in> set roleNames \<and> role_id x \<in> set (role_ids m')) (guild_roles g2)"
    unfolding held by (simp add: conj_commute)
  also have "\<dots> = [r]"
    using dx r(1) only by (rule filter_only)
  finally show ?thesis using r(2) res by blast
qed

subsection \<open>The example guild\<close>

lemma pair_with_snd: "fst p = x \<Longrightarrow> p = (x, snd p)"
  by (cases p) simp

lemma example_member:
  "member_of example_guild ''10''
     = Some \<lparr>member_id = ''10'', username = ''bob'', discriminator = ''0001'', role_ids = [1, 2]\<rparr>"
  by (simp add: member_of_def example_guild_def)

lemma example_dolphin:
  "fst (assignRoleByBalance example_guild
          \<lparr>member_id = ''10'', username = ''bob'', discriminator = ''0001'', role_ids = [1, 2]\<rparr>
          (Fin 7000) ''ZKL'')
     = Inr \<lparr>assigned_roleName = ''zkLDolphin '' @ dolphin, assigned_balance = Fin 7000,
            assigned_symbol = ''ZKL''\<rparr>"
  by code_simp

lemma example_holder:
  "fst (assignRoleByBalance example_guild
          \<lparr>member_id = ''10'', username = ''bob'', discriminator = ''0001'', role_ids = [1, 2]\<rparr>
          (Fin 0) ''ZKL'')
     = Inr \<lparr>assigned_roleName = ''zklHolder'', assigned_balance = Fin 0,
            assigned_symbol = ''ZKL''\<rparr>"
  by code_simp

text \<open>The statement at the first member of the example guild with the balance 7000.\<close>

theorem exactly_one_tier_role_witness:
  "distinct (map role_id (guild_roles example_guild))
   \<and> (\<exists>r. filter (\<lambda>r. role_name r \<in> set roleNames)
             (held_roles
               (snd (assignRoleByBalance example_guild
                       \<lparr>member_id = ''10'', username = ''bob'', discriminator = ''0001'',
                          role_ids = [1, 2]\<rparr>
                       (Fin 7000) ''ZKL''))
               ''10'') = [r]
          \<and> role_name r = ''zkLDolphin '' @ dolphin)"
proof -
  have d: "distinct (map role_id (guild_roles example_guild))"
    by (simp add: example_guild_def)
  have e: "\<exists>r. filter (\<lambda>r. role_name r \<in> set roleNames)
             (held_roles
               (snd (assignRoleByBalance example_guild
                       \<lparr>member_id = ''10'', username = ''bob'', discriminator = ''0001'',
                          role_ids = [1, 2]\<rparr>
                       (Fin 7000) ''ZKL''))
               ''10'') = [r]
          \<and> role_name r = ''zkLDolphin '' @ dolphin"
    using exactly_one_tier_role [OF d example_member pair_with_snd [OF example_dolphin]]
    unfolding assignment.select_convs by blast
  from d e show ?thesis by (rule conjI)
qed

text \<open>
  C4, as stated, fails: the first member of the example guild holds the role
  \<open>zklHolder\<close>, the balance 0 resolves to \<open>zklHolder\<close>, and this role is among the
  roles to remove: it is removed and then added again.
\<close>

theorem target_role_removed_counterexample:
  "rolesToRemove example_guild
     \<lparr>member_id = ''10'', username = ''bob'', discriminator = ''0001'', role_ids = [1, 2]\<rparr>
     = [\<lparr>role_id = 1, role_name = ''zklHolder''\<rparr>]
   \<and> resolveRoleName roleThresholds (Fin 0) = Inr ''zklHolder''
   \<and> requests (snd (assignRoleByBalance example_guild
          \<lparr>member_id = ''10'', username = ''bob'', discriminator = ''0001'', role_ids = [1, 2]\<rparr>
          (Fin 0) ''ZKL''))
       = [RemoveRole ''10'' 1, AddRole ''10'' 1]"
  by code_simp

text \<open>
  C4, amended. In every successful assignment the removals requested are, in order,
  those of all the roles the member holds whose name is in the table's list of
  names, and no other removal is requested. A held role named as the target is
  among them: it is removed too, before the target role is added.
\<close>

theorem removes_every_tier_role:
  assumes "assignRoleByBalance g m b s = (Inr a, g')"
  shows "(\<exists>rest. requests g'
              = requests g @ map (\<lambda>r. RemoveRole (member_id m) (role_id r)) (rolesToRemove g m) @ rest
            \<and> (\<forall>c \<in> set rest. \<forall>u i. c \<noteq> RemoveRole u i))
       \<and> set (rolesToRemove g m) = {r \<in> set (roles_cache g m). role_name r \<in> set roleNames}
       \<and> (\<forall>r \<in> set (roles_cache g m).
             role_name r = assigned_roleName a \<longrightarrow> r \<in> set (rolesToRemove g m))"
proof -
  let ?removals = "map (\<lambda>r. RemoveRole (member_id m) (role_id r)) (rolesToRemove g m)"
  from assignRoleByBalance_ok [OF assms] obtain g1 g2 r where
    rem: "remove_roles g (member_id m) (rolesToRemove g m) = (Inr (), g1)"
    and res: "resolveRoleName roleThresholds b = Inr (assigned_roleName a)"
    and role: "(js_find (\<lambda>r. role_name r = assigned_roleName a) (guild_roles g1) = Some r \<and> g2 = g1)
         \<or> (js_find (\<lambda>r. role_name r = assigned_roleName a) (guild_roles g1) = None
            \<and> roles_create g1 (assigned_roleName a) = (Inr r, g2))"
    and add: "roles_add g2 (member_id m) r = (Inr (), g')"
    by blast
  from remove_roles_ok [OF rem] have q1: "requests g1 = requests g @ ?removals" by simp
  from role have q2: "requests g2 = requests g1 \<or> requests g2 = requests g1 @ [CreateRole (assigned_roleName a)]"
    by (auto dest: roles_create_requests)
  from roles_add_requests [OF add]
  have q3: "requests g' = requests g2 @ [AddRole (member_id m) (role_id r)]" by simp
  from q1 q2 q3 have
    "requests g' = requests g @ ?removals @ [AddRole (member_id m) (role_id r)]
     \<or> requests g' = requests g @ ?removals
           @ [CreateRole (assigned_roleName a), AddRole (member_id m) (role_id r)]"
    by auto
  then have trace: "\<exists>rest. requests g' = requests g @ ?removals @ rest
            \<and> (\<forall>c \<in> set rest. \<forall>u i. c \<noteq> RemoveRole u i)"
  proof
    assume "requests g' = requests g @ ?removals @ [AddRole (member_id m) (role_id r)]"
    then show ?thesis by (intro exI [of _ "[AddRole (member_id m) (role_id r)]"]) simp
  next
    assume "requests g' = requests g @ ?removals
           @ [CreateRole (assigned_roleName a), AddRole (member_id m) (role_id r)]"
    then show ?thesis
      by (intro exI [of _ "[CreateRole (assigned_roleName a), AddRole (member_id m) (role_id r)]"])
        simp
  qed
  have all: "set (rolesToRemove g m) = {r \<in> set (roles_cache g m). role_name r \<in> set roleNames}"
    by (auto simp: rolesToRemove_def)
  from res have "assigned_roleName a \<in> set roleNames"
    by (auto simp: roleNames_def dest: resolveRoleName_label)
  with all have target: "\<forall>r \<in> set (roles_cache g m).
             role_name r = assigned_roleName a \<longrightarrow> r \<in> set (rolesToRemove g m)"
    by auto
  from trace all target show ?thesis by blast
qed

text \<open>The statement at the first member of the example guild with the balance 0.\<close>

theorem removes_every_tier_role_witness:
  "fst (assignRoleByBalance example_guild
          \<lparr>member_id = ''10'', username = ''bob'', discriminator = ''0001'', role_ids = [1, 2]\<rparr>
          (Fin 0) ''ZKL'')
     = Inr \<lparr>assigned_roleName = ''zklHolder'', assigned_balance = Fin 0,
            assigned_symbol = ''ZKL''\<rparr>
   \<and> \<lparr>role_id = 1, role_name = ''zklHolder''\<rparr>
       \<in> set (roles_cache example_guild
                \<lparr>member_id = ''10'', username = ''bob'', discriminator = ''0001'', role_ids = [1, 2]\<rparr>)
   \<and> \<lparr>role_id = 1, role_name = ''zklHolder''\<rparr>
       \<in> set (rolesToRemove example_guild
                \<lparr>member_id = ''10'', username = ''bob'', discriminator = ''0001'', role_ids = [1, 2]\<rparr>)"
proof -
  let ?bob = "\<lparr>member_id = ''10'', username = ''bob'', discriminator = ''0001'', role_ids = [1, 2]\<rparr>"
  let ?holder = "\<lparr>role_id = 1, role_name = ''zklHolder''\<rparr>"
  have held: "?holder \<in> set (roles_cache example_guild ?bob)"
    by (simp add: roles_cache_def example_guild_def)
  have "\<forall>r \<in> set (roles_cache example_guild ?bob).
          role_name r = ''zklHolder'' \<longrightarrow> r \<in> set (rolesToRemove example_guild ?bob)"
    using removes_every_tier_role [OF pair_with_snd [OF example_holder]]
    unfolding assignment.select_convs by blast
  with held have "?holder \<in> set (rolesToRemove example_guild ?bob)" by simp
  with held example_holder show ?thesis by blast
qed

section \<open>Properties of the daily update\<close>








subsection \<open>Three holders, the second failing\<close>





end
